theory Spec2Isabelle
  imports Main
begin

section \<open>Python values and string operations\<close>

text \<open>
  An exception is a value: the name of its class and the text \<open>str(exc)\<close> gives.
  Functions that can raise return \<open>exn + 'a\<close>, with \<open>Inl\<close> for the exception.
\<close>

datatype exn = PyExc (exc_class: string) (exc_str: string)

definition startswith :: "string \<Rightarrow> string \<Rightarrow> bool" where
  "startswith s pre = (take (length pre) s = pre)"

text \<open>\<open>s.replace(pat, '')\<close>: every occurrence of \<open>pat\<close>, left to right, is removed.\<close>

function py_remove :: "string \<Rightarrow> string \<Rightarrow> string" where
  "py_remove pat [] = []"
| "py_remove pat (c # cs) =
     (if pat \<noteq> [] \<and> startswith (c # cs) pat
      then py_remove pat (drop (length pat) (c # cs))
      else c # py_remove pat cs)"
  by pat_completeness auto
termination
  by (relation "measure (\<lambda>(pat, s). length s)") auto

text \<open>\<open>s.split(sep)\<close> for a one-character separator: the empty string gives \<open>['']\<close>.\<close>

fun py_split :: "char \<Rightarrow> string \<Rightarrow> string list" where
  "py_split sep [] = [[]]"
| "py_split sep (c # cs) =
     (if c = sep then [] # py_split sep cs
      else (case py_split sep cs of
              [] \<Rightarrow> [[c]]
            | w # ws \<Rightarrow> (c # w) # ws))"

text \<open>The decimal text of an integer, as an f-string renders it.\<close>

definition digit_char :: "nat \<Rightarrow> char" where
  "digit_char d = ''0123456789'' ! d"

function str_nat :: "nat \<Rightarrow> string" where
  "str_nat n = (if n < 10 then [digit_char n] else str_nat (n div 10) @ [digit_char (n mod 10)])"
  by pat_completeness auto
termination
  by (relation "measure id") auto

definition str_int :: "int \<Rightarrow> string" where
  "str_int i = (if i < 0 then CHR ''-'' # str_nat (nat (- i)) else str_nat (nat i))"

section \<open>database.py: the tables\<close>

text \<open>
  The two tables the scheduler and the tasks write. A TIMESTAMP is a number of seconds;
  a column that can be NULL is an option. \<open>jobs_seq\<close> and \<open>scraped_seq\<close> are the
  AUTOINCREMENT counters of the two tables (the largest id given out so far).
  sqlite3 itself is outside the model: a statement always runs.
\<close>

type_synonym timestamp = nat

record job =
  job_id :: int
  job_url :: string
  job_schedule :: string
  last_run :: "timestamp option"
  next_run :: "timestamp option"
  job_status :: string
  created_at :: timestamp

datatype meta_val = MStr string | MList "string list" | MInt int

type_synonym metadata = "(string \<times> meta_val) list"

text \<open>The dictionary every fetch returns (scraper.py) and the tasks build on failure.\<close>

record scraped =
  url :: string
  title :: string
  content :: string
  meta :: metadata
  source :: string
  status :: string

record scraped_row =
  row_id :: int
  row_data :: scraped
  scraped_at :: timestamp

record database =
  scraping_jobs :: "job list"
  jobs_seq :: int
  scraped_data :: "scraped_row list"
  scraped_seq :: int

definition init_database :: database where
  "init_database = \<lparr>scraping_jobs = [], jobs_seq = 0, scraped_data = [], scraped_seq = 0\<rparr>"

text \<open>\<open>insert_scraped_data\<close> (lines 64-82): one row appended, its id returned.\<close>

definition insert_scraped_data :: "database \<Rightarrow> scraped \<Rightarrow> timestamp \<Rightarrow> int \<times> database" where
  "insert_scraped_data d dat now =
     (let rid = scraped_seq d + 1
      in (rid, d\<lparr>scraped_data := scraped_data d @ [\<lparr>row_id = rid, row_data = dat, scraped_at = now\<rparr>],
                  scraped_seq := rid\<rparr>))"

text \<open>
  \<open>add_scraping_job\<close> (lines 99-110): INSERT INTO scraping_jobs (url, schedule). The
  columns the statement does not name take their defaults: status 'active', created_at
  the current time, last_run and next_run NULL.
\<close>

definition add_scraping_job :: "database \<Rightarrow> string \<Rightarrow> string \<Rightarrow> timestamp \<Rightarrow> int \<times> database" where
  "add_scraping_job d u sched now =
     (let jid = jobs_seq d + 1
      in (jid, d\<lparr>scraping_jobs := scraping_jobs d @
                    [\<lparr>job_id = jid, job_url = u, job_schedule = sched, last_run = None,
                      next_run = None, job_status = ''active'', created_at = now\<rparr>],
                  jobs_seq := jid\<rparr>))"

text \<open>
  \<open>update_job_status\<close> (lines 112-130): UPDATE ... WHERE id = ?. With a last_run the
  statement sets status and last_run, without one it sets status only. A job_id with no
  row updates nothing and is no error.
\<close>

definition update_row :: "int \<Rightarrow> string \<Rightarrow> timestamp option \<Rightarrow> job \<Rightarrow> job" where
  "update_row jid st lr j =
     (if job_id j = jid
      then (case lr of
              Some t \<Rightarrow> j\<lparr>job_status := st, last_run := Some t\<rparr>
            | None \<Rightarrow> j\<lparr>job_status := st\<rparr>)
      else j)"

definition update_job_status :: "database \<Rightarrow> int \<Rightarrow> string \<Rightarrow> timestamp option \<Rightarrow> database" where
  "update_job_status d jid st lr = d\<lparr>scraping_jobs := map (update_row jid st lr) (scraping_jobs d)\<rparr>"

section \<open>scheduler.py: ScrapingScheduler\<close>

text \<open>
  An entry of Celery's beat schedule. \<open>crontab(...)\<close> is Celery's; the model keeps the
  keyword arguments a call passes, in the order written. The constructor has the
  parameters minute, hour, day_of_week, day_of_month and month_of_year, and raises
  TypeError for any other keyword (when a field it knows is None or malformed it raises
  for that first; the handler of the caller catches either, and the message is only
  logged). The three named cadences pass keywords it has, with integers, which it takes.
\<close>

datatype cron_arg = CInt int | CStr string | CNone

datatype crontab = Crontab "(string \<times> cron_arg) list"

definition crontab_keywords :: "string list" where
  "crontab_keywords =
     [''minute'', ''hour'', ''day_of_week'', ''day_of_month'', ''month_of_year'']"

definition celery_crontab :: "(string \<times> cron_arg) list \<Rightarrow> exn + crontab" where
  "celery_crontab kwargs =
     (case filter (\<lambda>k. k \<notin> set crontab_keywords) (map fst kwargs) of
        [] \<Rightarrow> Inr (Crontab kwargs)
      | k # ks \<Rightarrow>
          Inl (PyExc ''TypeError''
                 (''__init__() got an unexpected keyword argument '' @ [CHR 0x27] @ k @ [CHR 0x27])))"

record beat_entry =
  task :: string
  schedule :: crontab
  args :: "string \<times> bool"
  queue :: string

text \<open>
  The scheduler's state: the database and \<open>celery_app.conf.beat_schedule\<close>, a dictionary
  from entry names to entries.
\<close>

record scheduler =
  db :: database
  beat_schedule :: "string \<rightharpoonup> beat_entry"


definition beat :: "crontab \<Rightarrow> string \<Rightarrow> bool \<Rightarrow> beat_entry" where
  "beat c u use_selenium =
     \<lparr>task = ''scheduler.scrape_url_task'', schedule = c, args = (u, use_selenium),
      queue = ''scraping''\<rparr>"

definition schedule_hourly :: "scheduler \<Rightarrow> string \<Rightarrow> int \<Rightarrow> bool \<Rightarrow> scheduler" where
  "schedule_hourly s u jid use_selenium =
     s\<lparr>beat_schedule := (beat_schedule s)
          (''scrape_hourly_'' @ str_int jid \<mapsto> beat (Crontab [(''minute'', CInt 0)]) u use_selenium)\<rparr>"

definition schedule_daily :: "scheduler \<Rightarrow> string \<Rightarrow> int \<Rightarrow> bool \<Rightarrow> scheduler" where
  "schedule_daily s u jid use_selenium =
     s\<lparr>beat_schedule := (beat_schedule s)
          (''scrape_daily_'' @ str_int jid \<mapsto>
             beat (Crontab [(''hour'', CInt 0), (''minute'', CInt 0)]) u use_selenium)\<rparr>"

definition schedule_weekly :: "scheduler \<Rightarrow> string \<Rightarrow> int \<Rightarrow> bool \<Rightarrow> scheduler" where
  "schedule_weekly s u jid use_selenium =
     s\<lparr>beat_schedule := (beat_schedule s)
          (''scrape_weekly_'' @ str_int jid \<mapsto>
             beat (Crontab [(''day_of_week'', CInt 0), (''hour'', CInt 0), (''minute'', CInt 0)])
               u use_selenium)\<rparr>"

text \<open>
  \<open>_schedule_cron\<close> (lines 187-213). The try block splits the text after removing
  \<open>cron:\<close>; five parts are passed to \<open>crontab\<close> under the keywords minute, hour, day,
  month and day_of_week, any other number raises ValueError, and the handler of the
  same function falls back to \<open>_schedule_hourly\<close> for every exception of the block.
\<close>

definition cron_field :: "string \<Rightarrow> cron_arg" where
  "cron_field f = (if f \<noteq> ''*'' then CStr f else CNone)"

definition parse_cron :: "string \<Rightarrow> exn + crontab" where
  "parse_cron cron_schedule =
     (case py_split CHR '','' (py_remove ''cron:'' cron_schedule) of
        [minute, hour, day, month, day_of_week] \<Rightarrow>
          celery_crontab [(''minute'', cron_field minute), (''hour'', cron_field hour),
                          (''day'', cron_field day), (''month'', cron_field month),
                          (''day_of_week'', cron_field day_of_week)]
      | _ \<Rightarrow> Inl (PyExc ''ValueError''
                 ''Invalid cron format. Use: cron:minute,hour,day,month,day_of_week''))"

definition schedule_cron :: "scheduler \<Rightarrow> string \<Rightarrow> int \<Rightarrow> string \<Rightarrow> bool \<Rightarrow> scheduler" where
  "schedule_cron s u jid cron_schedule use_selenium =
     (case parse_cron cron_schedule of
        Inr c \<Rightarrow> s\<lparr>beat_schedule := (beat_schedule s)
                      (''scrape_cron_'' @ str_int jid \<mapsto> beat c u use_selenium)\<rparr>
      | Inl e \<Rightarrow> schedule_hourly s u jid use_selenium)"

text \<open>
  \<open>schedule_url\<close> (lines 134-158): the job row first, then the beat entry chosen by the
  schedule text. The handler re-raises, so the result is a sum; no call of the body
  raises in this model.
\<close>

definition schedule_url ::
  "scheduler \<Rightarrow> string \<Rightarrow> string \<Rightarrow> bool \<Rightarrow> timestamp \<Rightarrow> exn + (int \<times> scheduler)" where
  "schedule_url s u sched use_selenium now =
     (let (jid, d) = add_scraping_job (db s) u sched now;
          s1 = s\<lparr>db := d\<rparr>
      in Inr (jid,
           if sched = ''hourly'' then schedule_hourly s1 u jid use_selenium
           else if sched = ''daily'' then schedule_daily s1 u jid use_selenium
           else if sched = ''weekly'' then schedule_weekly s1 u jid use_selenium
           else if startswith sched ''cron:'' then schedule_cron s1 u jid sched use_selenium
           else schedule_hourly s1 u jid use_selenium))"

text \<open>
  \<open>remove_scheduled_job\<close> (lines 215-237): the row's status becomes 'inactive', then each
  of the four entry names is deleted from the beat schedule when it is there.
\<close>

definition schedule_keys :: "int \<Rightarrow> string list" where
  "schedule_keys jid =
     [''scrape_hourly_'' @ str_int jid, ''scrape_daily_'' @ str_int jid,
      ''scrape_weekly_'' @ str_int jid, ''scrape_cron_'' @ str_int jid]"

fun del_keys :: "string list \<Rightarrow> (string \<rightharpoonup> beat_entry) \<Rightarrow> (string \<rightharpoonup> beat_entry)" where
  "del_keys [] m = m"
| "del_keys (k # ks) m = del_keys ks (if m k \<noteq> None then m(k := None) else m)"

definition remove_scheduled_job :: "scheduler \<Rightarrow> int \<Rightarrow> exn + scheduler" where
  "remove_scheduled_job s jid =
     (let s1 = s\<lparr>db := update_job_status (db s) jid ''inactive'' None\<rparr>
      in Inr (s1\<lparr>beat_schedule := del_keys (schedule_keys jid) (beat_schedule s1)\<rparr>))"

section \<open>scheduler.py: get_task_status\<close>

text \<open>
  Celery's \<open>AsyncResult\<close>: the state of a task in the result backend, and its result once
  the task is over. \<open>ready()\<close> holds in the three final states. A task id the backend
  does not know is PENDING. The backend is a parameter: the lookup gives the task's state
  and result, or raises (the backend cannot be reached).
\<close>

datatype task_state = PENDING | RECEIVED | STARTED | RETRY | SUCCESS | FAILURE | REVOKED

fun state_name :: "task_state \<Rightarrow> string" where
  "state_name PENDING = ''PENDING''"
| "state_name RECEIVED = ''RECEIVED''"
| "state_name STARTED = ''STARTED''"
| "state_name RETRY = ''RETRY''"
| "state_name SUCCESS = ''SUCCESS''"
| "state_name FAILURE = ''FAILURE''"
| "state_name REVOKED = ''REVOKED''"

fun ready :: "task_state \<Rightarrow> bool" where
  "ready SUCCESS = True"
| "ready FAILURE = True"
| "ready REVOKED = True"
| "ready _ = False"

datatype 'r status_val = SStr string | SBool bool | SNone | SResult 'r

type_synonym 'r backend = "string \<Rightarrow> exn + (task_state \<times> 'r option)"

definition get_task_status :: "'r backend \<Rightarrow> string \<Rightarrow> (string \<times> 'r status_val) list" where
  "get_task_status backend task_id =
     (case backend task_id of
        Inr (st, res) \<Rightarrow>
          [(''task_id'', SStr task_id),
           (''status'', SStr (state_name st)),
           (''result'', if ready st then (case res of Some r \<Rightarrow> SResult r | None \<Rightarrow> SNone) else SNone),
           (''ready'', SBool (ready st))]
      | Inl e \<Rightarrow>
          [(''task_id'', SStr task_id),
           (''status'', SStr ''error''),
           (''error'', SStr (exc_str e))])"

section \<open>scraper.py: the parsed document\<close>

text \<open>
  What \<open>BeautifulSoup(response.content, 'html.parser')\<close> gives: a tree of tags, each with
  its attributes and children, and strings. A string is a NavigableString (\<open>Text\<close>) or a
  string of another class, kept with the name of the class (\<open>Other\<close>): Comment, CData, and
  the classes the parser gives to the strings below a script, style, template, rt or rp
  tag. BeautifulSoup is a library; the operations of it that scraper.py calls are
  written on this tree as its documentation describes them. A character stands for a
  code point below 256, and white space is what \<open>str.isspace\<close> accepts among those.
\<close>

datatype node =
    Text string
  | Other string string
  | Elem string "(string \<times> string) list" "node list"

type_synonym soup = "node list"

fun descendants :: "node \<Rightarrow> node list" where
  "descendants (Text s) = []"
| "descendants (Other c s) = []"
| "descendants (Elem t a cs) = concat (map (\<lambda>c. c # descendants c) cs)"

definition soup_descendants :: "soup \<Rightarrow> node list" where
  "soup_descendants d = concat (map (\<lambda>c. c # descendants c) d)"

text \<open>
  The strings \<open>get_text\<close> keeps. Called on an ordinary tag or on the document it keeps
  the NavigableString and CData strings; called on a script, style, template, rt or rp
  tag it keeps the strings of that tag's own class.
\<close>

definition string_container :: "string \<Rightarrow> string option" where
  "string_container t =
     (if t = ''script'' then Some ''Script''
      else if t = ''style'' then Some ''Stylesheet''
      else if t = ''template'' then Some ''TemplateString''
      else if t = ''rt'' then Some ''RubyTextString''
      else if t = ''rp'' then Some ''RubyParenthesisString''
      else None)"

fun interesting_string_types :: "node \<Rightarrow> string option" where
  "interesting_string_types (Text s) = None"
| "interesting_string_types (Other c s) = None"
| "interesting_string_types (Elem t a cs) = string_container t"

fun node_strings :: "string option \<Rightarrow> node list \<Rightarrow> string list" where
  "node_strings types [] = []"
| "node_strings types (Text s # ns) =
     (if types = None then s # node_strings types ns else node_strings types ns)"
| "node_strings types (Other c s # ns) =
     (if types = Some c \<or> (types = None \<and> c = ''CData'')
      then s # node_strings types ns else node_strings types ns)"
| "node_strings types (Elem t a cs # ns) = node_strings types ns"

definition is_space :: "char \<Rightarrow> bool" where
  "is_space c =
     (c \<in> set [CHR '' '', CHR 0x09, CHR 0x0A, CHR 0x0B, CHR 0x0C, CHR 0x0D,
                CHR 0x1C, CHR 0x1D, CHR 0x1E, CHR 0x1F, CHR 0x85, CHR 0xA0])"

definition py_strip :: "string \<Rightarrow> string" where
  "py_strip s = rev (dropWhile is_space (rev (dropWhile is_space s)))"

fun py_join :: "string \<Rightarrow> string list \<Rightarrow> string" where
  "py_join sep [] = []"
| "py_join sep [x] = x"
| "py_join sep (x # y # ys) = x @ sep @ py_join sep (y # ys)"

text \<open>\<open>get_text()\<close> and \<open>get_text(separator=' ', strip=True)\<close> over the strings below a tag.\<close>

definition get_text :: "string option \<Rightarrow> node list \<Rightarrow> string" where
  "get_text types ns = concat (node_strings types ns)"

definition get_text_strip :: "string option \<Rightarrow> node list \<Rightarrow> string" where
  "get_text_strip types ns =
     py_join '' '' (filter (\<lambda>s. s \<noteq> []) (map py_strip (node_strings types ns)))"

fun is_tag :: "string \<Rightarrow> node \<Rightarrow> bool" where
  "is_tag t (Text s) = False"
| "is_tag t (Other c s) = False"
| "is_tag t (Elem t' a cs) = (t' = t)"

fun node_attr :: "node \<Rightarrow> string \<Rightarrow> string option" where
  "node_attr (Text s) k = None"
| "node_attr (Other c s) k = None"
| "node_attr (Elem t a cs) k = map_of a k"

text \<open>\<open>for script in soup(["script", "style"]): script.decompose()\<close>: every tag with one of
  the names leaves the tree, with all that is below it.\<close>

fun tag_in :: "string list \<Rightarrow> node \<Rightarrow> bool" where
  "tag_in ts (Text s) = False"
| "tag_in ts (Other c s) = False"
| "tag_in ts (Elem t a cs) = (t \<in> set ts)"

fun decompose :: "string list \<Rightarrow> node \<Rightarrow> node" where
  "decompose ts (Text s) = Text s"
| "decompose ts (Other c s) = Other c s"
| "decompose ts (Elem t a cs) =
     Elem t a (map (decompose ts) (filter (\<lambda>c. \<not> tag_in ts c) cs))"

definition soup_decompose :: "string list \<Rightarrow> soup \<Rightarrow> soup" where
  "soup_decompose ts d = map (decompose ts) (filter (\<lambda>c. \<not> tag_in ts c) d)"

text \<open>
  \<open>select_one\<close> for the three selector forms the program uses: a tag name, \<open>.class\<close> and
  \<open>#id\<close>. The first tag in document order that matches, or None.
\<close>

function py_words :: "string \<Rightarrow> string list" where
  "py_words [] = []"
| "py_words (c # cs) =
     (if is_space c then py_words cs
      else takeWhile (\<lambda>x. \<not> is_space x) (c # cs) # py_words (dropWhile (\<lambda>x. \<not> is_space x) cs))"
  by pat_completeness auto
termination
  by (relation "measure length") (auto simp: length_dropWhile_le le_imp_less_Suc)

fun matches :: "string \<Rightarrow> node \<Rightarrow> bool" where
  "matches sel (Text s) = False"
| "matches sel (Other c s) = False"
| "matches sel (Elem t a cs) =
     (case sel of
        [] \<Rightarrow> False
      | c # rest \<Rightarrow>
          if c = CHR ''.'' then (case map_of a ''class'' of
                                   Some v \<Rightarrow> rest \<in> set (py_words v)
                                 | None \<Rightarrow> False)
          else if c = CHR ''#'' then map_of a ''id'' = Some rest
          else t = sel)"

definition select_one :: "soup \<Rightarrow> string \<Rightarrow> node option" where
  "select_one d sel = find (matches sel) (soup_descendants d)"

definition element_text :: "node \<Rightarrow> string" where
  "element_text e = get_text_strip (interesting_string_types e) (descendants e)"

definition soup_text :: "soup \<Rightarrow> string" where
  "soup_text d = get_text_strip None (soup_descendants d)"

section \<open>scraper.py: WebScraper\<close>

text \<open>\<open>_extract_content\<close> (lines 137-155). The soup is changed in place, so it is returned.\<close>

definition content_selectors :: "string list" where
  "content_selectors =
     [''main'', ''article'', ''.content'', ''.main-content'',
      ''#content'', ''#main'', ''.post-content'', ''.entry-content'']"

fun try_selectors :: "soup \<Rightarrow> string list \<Rightarrow> string option" where
  "try_selectors d [] = None"
| "try_selectors d (selector # rest) =
     (case select_one d selector of
        Some element \<Rightarrow> Some (element_text element)
      | None \<Rightarrow> try_selectors d rest)"

definition extract_content :: "soup \<Rightarrow> string \<times> soup" where
  "extract_content d0 =
     (let d = soup_decompose [''script'', ''style''] d0
      in (case try_selectors d content_selectors of
            Some t \<Rightarrow> t
          | None \<Rightarrow> soup_text d, d))"

text \<open>
  The response of \<open>session.get\<close>: status line, the content-type header when there is one,
  and the parsed body.
\<close>

record response =
  status_code :: int
  reason :: string
  content_type :: "string option"
  parsed :: soup

text \<open>\<open>_extract_metadata\<close> (lines 181-205). A dict keeps the place of a key it already has.\<close>

fun dict_set :: "('k \<times> 'v) list \<Rightarrow> 'k \<Rightarrow> 'v \<Rightarrow> ('k \<times> 'v) list" where
  "dict_set [] k v = [(k, v)]"
| "dict_set ((k', v') # kvs) k v =
     (if k' = k then (k, v) # kvs else (k', v') # dict_set kvs k v)"

definition py_or :: "string option \<Rightarrow> string option \<Rightarrow> string option" where
  "py_or a b = (case a of Some x \<Rightarrow> if x \<noteq> [] then Some x else b | None \<Rightarrow> b)"

fun add_meta_tags :: "(string \<Rightarrow> string option) list \<Rightarrow> metadata \<Rightarrow> metadata" where
  "add_meta_tags [] md = md"
| "add_meta_tags (get # rest) md =
     add_meta_tags rest
       (case (py_or (get ''name'') (get ''property''), get ''content'') of
          (Some name, Some cont) \<Rightarrow>
            if name \<noteq> [] \<and> cont \<noteq> [] then dict_set md name (MStr cont) else md
        | _ \<Rightarrow> md)"

definition with_attr :: "string \<Rightarrow> string \<Rightarrow> soup \<Rightarrow> string list" where
  "with_attr t k d =
     map (\<lambda>n. case node_attr n k of Some v \<Rightarrow> v | None \<Rightarrow> [])
       (take 10 (filter (\<lambda>n. is_tag t n \<and> node_attr n k \<noteq> None) (soup_descendants d)))"

definition extract_metadata :: "soup \<Rightarrow> response \<Rightarrow> metadata" where
  "extract_metadata d r =
     (let md0 = add_meta_tags (map node_attr (filter (is_tag ''meta'') (soup_descendants d))) [];
          md1 = dict_set md0 ''links'' (MList (with_attr ''a'' ''href'' d));
          md2 = dict_set md1 ''images'' (MList (with_attr ''img'' ''src'' d));
          md3 = dict_set md2 ''status_code'' (MInt (status_code r))
      in dict_set md3 ''content_type''
           (MStr (case content_type r of Some v \<Rightarrow> v | None \<Rightarrow> [])))"

text \<open>
  \<open>scrape_with_requests\<close> (lines 44-80). Everything runs inside one try block whose
  handler returns the error dictionary, so the function itself never raises.
  \<open>raise_for_status\<close> is the library's: HTTPError for a 4xx or 5xx status, with the
  status, the reason and the url in its message (the url of the request here).
\<close>

definition error_result :: "string \<Rightarrow> string \<Rightarrow> string \<Rightarrow> scraped" where
  "error_result u src msg =
     \<lparr>url = u, title = [], content = [], meta = [], source = src, status = ''error: '' @ msg\<rparr>"

definition raise_for_status :: "response \<Rightarrow> string \<Rightarrow> exn + unit" where
  "raise_for_status r u =
     (if 400 \<le> status_code r \<and> status_code r < 500
      then Inl (PyExc ''HTTPError''
             (str_int (status_code r) @ '' Client Error: '' @ reason r @ '' for url: '' @ u))
      else if 500 \<le> status_code r \<and> status_code r < 600
      then Inl (PyExc ''HTTPError''
             (str_int (status_code r) @ '' Server Error: '' @ reason r @ '' for url: '' @ u))
      else Inr ())"

text \<open>
  What the selenium driver answers for the page it has loaded: the title, the text of
  the first element a CSS selector finds (None: NoSuchElementException), the text of
  the body, and the attributes of the elements with a given tag name.
\<close>

record browser_page =
  page_title :: string
  css_text :: "string \<Rightarrow> string option"
  body_text :: "string option"
  elements_by_tag :: "string \<Rightarrow> (string \<rightharpoonup> string) list"

text \<open>
  The world outside the program: the HTTP session, the start of the Chrome driver and
  the setting of its page-load timeout, the pages the driver loads, and the exception
  the interpreter raises when a \<open>with\<close> statement is given an object whose class has no
  \<open>__enter__\<close> and \<open>__exit__\<close> (AttributeError before Python 3.11, TypeError from 3.11).
\<close>

record env =
  http_get :: "string \<Rightarrow> exn + response"
  chrome_start :: "exn + unit"
  set_page_load_timeout :: "exn + unit"
  driver_get :: "string \<Rightarrow> exn + browser_page"
  no_context_manager :: exn

definition scrape_with_requests :: "env \<Rightarrow> string \<Rightarrow> scraped" where
  "scrape_with_requests e u =
     (case http_get e u of
        Inl exc \<Rightarrow> error_result u ''requests'' (exc_str exc)
      | Inr r \<Rightarrow>
          (case raise_for_status r u of
             Inl exc \<Rightarrow> error_result u ''requests'' (exc_str exc)
           | Inr _ \<Rightarrow>
               (let title_text =
                      (case find (is_tag ''title'') (soup_descendants (parsed r)) of
                         Some t \<Rightarrow>
                           py_strip (get_text (interesting_string_types t) (descendants t))
                       | None \<Rightarrow> []);
                    (cont, d) = extract_content (parsed r);
                    md = extract_metadata d r
                in \<lparr>url = u, title = title_text, content = cont, meta = md,
                    source = ''requests'', status = ''success''\<rparr>)))"

text \<open>
  A WebScraper instance: the flag, and the driver when Chrome started.
  \<open>_setup_selenium\<close> (lines 26-42) catches every exception of its try block and clears
  \<open>use_selenium\<close>: when the start of Chrome raises no driver was assigned, when the
  setting of the timeout raises the driver stays assigned. \<open>__init__\<close> (lines 16-24)
  calls it when the flag is set.
\<close>

record web_scraper =
  ws_use_selenium :: bool
  ws_headless :: bool
  ws_driver :: "unit option"

definition setup_selenium :: "env \<Rightarrow> web_scraper \<Rightarrow> web_scraper" where
  "setup_selenium e w =
     (case chrome_start e of
        Inl exc \<Rightarrow> w\<lparr>ws_use_selenium := False\<rparr>
      | Inr drv \<Rightarrow>
          (case set_page_load_timeout e of
             Inl exc \<Rightarrow> w\<lparr>ws_driver := Some drv, ws_use_selenium := False\<rparr>
           | Inr _ \<Rightarrow> w\<lparr>ws_driver := Some drv\<rparr>))"

definition web_scraper_init :: "env \<Rightarrow> bool \<Rightarrow> web_scraper" where
  "web_scraper_init e use_selenium =
     (let w = \<lparr>ws_use_selenium = use_selenium, ws_headless = True, ws_driver = None\<rparr>
      in if use_selenium then setup_selenium e w else w)"

text \<open>\<open>_extract_content_selenium\<close> (lines 157-179) and \<open>_extract_metadata_selenium\<close> (lines 207-231).\<close>

fun try_selectors_selenium :: "browser_page \<Rightarrow> string list \<Rightarrow> string option" where
  "try_selectors_selenium p [] = None"
| "try_selectors_selenium p (selector # rest) =
     (case css_text p selector of
        Some t \<Rightarrow> Some (py_strip t)
      | None \<Rightarrow> try_selectors_selenium p rest)"

definition extract_content_selenium :: "browser_page \<Rightarrow> string" where
  "extract_content_selenium p =
     (case try_selectors_selenium p content_selectors of
        Some t \<Rightarrow> t
      | None \<Rightarrow> (case body_text p of Some t \<Rightarrow> py_strip t | None \<Rightarrow> []))"

definition truthy_attrs :: "string \<Rightarrow> (string \<rightharpoonup> string) list \<Rightarrow> string list" where
  "truthy_attrs k els =
     concat (map (\<lambda>el. case el k of Some v \<Rightarrow> (if v \<noteq> [] then [v] else []) | None \<Rightarrow> [])
       (take 10 els))"

definition extract_metadata_selenium :: "browser_page \<Rightarrow> metadata" where
  "extract_metadata_selenium p =
     (let md0 = add_meta_tags (elements_by_tag p ''meta'') [];
          md1 = dict_set md0 ''links'' (MList (truthy_attrs ''href'' (elements_by_tag p ''a'')))
      in dict_set md1 ''images'' (MList (truthy_attrs ''src'' (elements_by_tag p ''img''))))"

text \<open>\<open>scrape_with_selenium\<close> (lines 82-128) and \<open>scrape\<close> (lines 130-135).\<close>

definition scrape_with_selenium :: "env \<Rightarrow> web_scraper \<Rightarrow> string \<Rightarrow> scraped" where
  "scrape_with_selenium e w u =
     (case ws_driver w of
        None \<Rightarrow> error_result u ''selenium'' ''Selenium not initialized''
      | Some drv \<Rightarrow>
          (case driver_get e u of
             Inl exc \<Rightarrow> error_result u ''selenium'' (exc_str exc)
           | Inr p \<Rightarrow>
               \<lparr>url = u, title = page_title p, content = extract_content_selenium p,
                meta = extract_metadata_selenium p, source = ''selenium'',
                status = ''success''\<rparr>))"

definition scrape :: "env \<Rightarrow> web_scraper \<Rightarrow> string \<Rightarrow> scraped" where
  "scrape e w u =
     (if ws_use_selenium w then scrape_with_selenium e w u else scrape_with_requests e u)"

section \<open>scraper.py: ScrapingManager\<close>

text \<open>\<open>get_scraper\<close> (lines 250-254): one WebScraper per URL, made on first use.\<close>

record manager =
  mgr_use_selenium :: bool
  mgr_scrapers :: "(string \<times> web_scraper) list"

definition manager_init :: "bool \<Rightarrow> manager" where
  "manager_init use_selenium = \<lparr>mgr_use_selenium = use_selenium, mgr_scrapers = []\<rparr>"

definition get_scraper :: "env \<Rightarrow> manager \<Rightarrow> string \<Rightarrow> web_scraper \<times> manager" where
  "get_scraper e m u =
     (case map_of (mgr_scrapers m) u of
        Some w \<Rightarrow> (w, m)
      | None \<Rightarrow>
          (let w = web_scraper_init e (mgr_use_selenium m)
           in (w, m\<lparr>mgr_scrapers := mgr_scrapers m @ [(u, w)]\<rparr>)))"

text \<open>
  The two classes of scraper.py and the methods each defines. A \<open>with\<close> statement looks
  \<open>__enter__\<close> and \<open>__exit__\<close> up on the class of its object before the body runs, and
  raises when one is missing. WebScraper defines both (lines 239-243); ScrapingManager
  (lines 245-269) defines neither.
\<close>

datatype py_class = WebScraper | ScrapingManager

fun class_methods :: "py_class \<Rightarrow> string list" where
  "class_methods WebScraper =
     [''__init__'', ''_setup_selenium'', ''scrape_with_requests'', ''scrape_with_selenium'',
      ''scrape'', ''_extract_content'', ''_extract_content_selenium'', ''_extract_metadata'',
      ''_extract_metadata_selenium'', ''close'', ''__enter__'', ''__exit__'']"
| "class_methods ScrapingManager =
     [''__init__'', ''get_scraper'', ''scrape_multiple'', ''close_all'']"

definition with_enter :: "env \<Rightarrow> py_class \<Rightarrow> exn + unit" where
  "with_enter e c =
     (if ''__enter__'' \<in> set (class_methods c) \<and> ''__exit__'' \<in> set (class_methods c)
      then Inr ()
      else Inl (no_context_manager e))"

section \<open>scheduler.py: the Celery tasks\<close>









text \<open>
  \<open>scrape_multiple_urls_task\<close> (lines 79-127). \<open>batch_loop\<close> is the for loop with the
  results list and the database it has built so far; no call of the loop's try block
  raises here (\<open>scrape\<close> catches every exception itself), so its handler has nothing to
  catch. \<open>batch_body\<close> is the block under the \<open>with\<close> statement followed by the return of
  the aggregate; the task enters the \<open>with\<close> first, inside the outer try.
\<close>

datatype batch_return = BatchOk nat nat nat "scraped list" | BatchFail string


fun batch_loop ::
  "env \<Rightarrow> manager \<Rightarrow> string list \<Rightarrow> scraped list \<Rightarrow> database \<Rightarrow> timestamp \<Rightarrow> scraped list \<times> database" where
  "batch_loop e m [] results d now = (results, d)"
| "batch_loop e m (u # us) results d now =
     (let (w, m1) = get_scraper e m u;
          result = scrape e w u;
          (record_id, d1) = insert_scraped_data d result now
      in batch_loop e m1 us (results @ [result]) d1 now)"

definition batch_body ::
  "env \<Rightarrow> manager \<Rightarrow> string list \<Rightarrow> database \<Rightarrow> timestamp \<Rightarrow> batch_return \<times> database" where
  "batch_body e m urls d now =
     (let (results, d1) = batch_loop e m urls [] d now
      in (BatchOk (length urls)
            (length (filter (\<lambda>r. status r = ''success'') results))
            (length (filter (\<lambda>r. status r \<noteq> ''success'') results))
            results, d1))"

definition scrape_multiple_urls_task ::
  "env \<Rightarrow> string list \<Rightarrow> bool \<Rightarrow> database \<Rightarrow> timestamp \<Rightarrow> batch_return \<times> database" where
  "scrape_multiple_urls_task e urls use_selenium d now =
     (case with_enter e ScrapingManager of
        Inl exc \<Rightarrow> (BatchFail (exc_str exc), d)
      | Inr _ \<Rightarrow> batch_body e (manager_init use_selenium) urls d now)"

section \<open>Operations on the job table\<close>

text \<open>
  The calls that write the database: scheduling, unscheduling, a status update of the
  database manager, and the storing of a fetched result.
\<close>

datatype sched_op =
    Schedule string string bool timestamp
  | Unschedule int
  | SetStatus int string "timestamp option"
  | StoreResult scraped timestamp

fun apply_op :: "sched_op \<Rightarrow> scheduler \<Rightarrow> scheduler" where
  "apply_op (Schedule u sched use_selenium now) s =
     (case schedule_url s u sched use_selenium now of Inr (jid, s') \<Rightarrow> s' | Inl e \<Rightarrow> s)"
| "apply_op (Unschedule jid) s =
     (case remove_scheduled_job s jid of Inr s' \<Rightarrow> s' | Inl e \<Rightarrow> s)"
| "apply_op (SetStatus jid st lr) s = s\<lparr>db := update_job_status (db s) jid st lr\<rparr>"
| "apply_op (StoreResult dat now) s = s\<lparr>db := snd (insert_scraped_data (db s) dat now)\<rparr>"

text \<open>
  A row is kept when the row at the same place has the same id, url, schedule, creation
  time and next_run; a table is kept when every row of it is.
\<close>

definition same_job :: "job \<Rightarrow> job \<Rightarrow> bool" where
  "same_job j j' =
     (job_id j' = job_id j \<and> job_url j' = job_url j \<and> job_schedule j' = job_schedule j \<and>
      created_at j' = created_at j \<and> next_run j' = next_run j)"

definition rows_kept :: "job list \<Rightarrow> job list \<Rightarrow> bool" where
  "rows_kept js js' = (length js \<le> length js' \<and> list_all2 same_job js (take (length js) js'))"

section \<open>The specification's words\<close>


definition resolved_status :: "string \<Rightarrow> bool" where
  "resolved_status st = (st = ''SUCCESS'' \<or> st = ''success'' \<or> startswith st ''error:'')"

section \<open>Example inputs\<close>

definition pending_backend :: "unit backend" where
  "pending_backend task_id = Inr (PENDING, None)"

definition unreachable_backend :: "unit backend" where
  "unreachable_backend task_id =
     Inl (PyExc ''ConnectionError'' ''Error 111 connecting to localhost:6379. Connection refused.'')"

definition example_page :: soup where
  "example_page =
     [Elem ''html'' []
        [Elem ''head'' []
           [Elem ''title'' [] [Text '' News ''],
            Elem ''meta'' [(''name'', ''description''), (''content'', ''daily news'')] []],
         Elem ''body'' []
           [Elem ''div'' [(''class'', ''wide content'')]
              [Text '' side '', Elem ''script'' [] [Other ''Script'' ''track()'']],
            Elem ''article'' [] [Text ''the '', Elem ''b'' [] [Text ''story'']],
            Elem ''a'' [(''href'', ''/next'')] [Text ''more'']]]]"

definition plain_page :: soup where
  "plain_page =
     [Elem ''html'' []
        [Elem ''body'' []
           [Elem ''p'' [] [Text '' one ''], Elem ''style'' [] [Other ''Stylesheet'' ''p {}''],
            Elem ''p'' [] [Text ''two'']]]]"

definition no_chrome :: env where
  "no_chrome =
     \<lparr>http_get = (\<lambda>u. Inr \<lparr>status_code = 200, reason = ''OK'',
                             content_type = Some ''text/html'', parsed = example_page\<rparr>),
      chrome_start = Inl (PyExc ''WebDriverException'' ''chrome not reachable''),
      set_page_load_timeout = Inr (),
      driver_get = (\<lambda>u. Inl (PyExc ''WebDriverException'' ''no session'')),
      no_context_manager = PyExc ''AttributeError'' ''__enter__''\<rparr>"


definition a_up_b_down :: env where
  "a_up_b_down =
     \<lparr>http_get = (\<lambda>u. if u = ''a''
                       then Inr \<lparr>status_code = 200, reason = ''OK'',
                                 content_type = Some ''text/html'', parsed = plain_page\<rparr>
                       else Inl (PyExc ''ConnectionError'' ''connection refused'')),
      chrome_start = Inl (PyExc ''WebDriverException'' ''chrome not reachable''),
      set_page_load_timeout = Inr (),
      driver_get = (\<lambda>u. Inl (PyExc ''WebDriverException'' ''no session'')),
      no_context_manager = PyExc ''AttributeError'' ''__enter__''\<rparr>"

definition one_job :: scheduler where
  "one_job =
     \<lparr>db = \<lparr>scraping_jobs =
              [\<lparr>job_id = 1, job_url = ''https://example.test/page'', job_schedule = ''hourly'',
                last_run = None, next_run = None, job_status = ''active'', created_at = 1000\<rparr>],
            jobs_seq = 1, scraped_data = [], scraped_seq = 0\<rparr>,
      beat_schedule = [''scrape_hourly_1'' \<mapsto>
         beat (Crontab [(''minute'', CInt 0)]) ''https://example.test/page'' False]\<rparr>"

definition one_job_removed :: scheduler where
  "one_job_removed =
     \<lparr>db = \<lparr>scraping_jobs =
              [\<lparr>job_id = 1, job_url = ''https://example.test/page'', job_schedule = ''hourly'',
                last_run = None, next_run = None, job_status = ''inactive'', created_at = 1000\<rparr>],
            jobs_seq = 1, scraped_data = [], scraped_seq = 0\<rparr>,
      beat_schedule = Map.empty\<rparr>"

section \<open>Facts about the string operations\<close>





section \<open>The single-target task under retries\<close>

lemma with_scraping_manager_raises: "with_enter e ScrapingManager = Inl (no_context_manager e)"
  by (simp add: with_enter_def)







section \<open>Scheduling\<close>






text \<open>
  With five parts too the crontab call of \<open>_schedule_cron\<close> raises (day and month are
  not keywords of \<open>crontab\<close>), so every \<open>cron:\<close> spec ends in the hourly registration.
\<close>

lemma parse_cron_raises: "\<exists>exc. parse_cron sched = Inl exc"
  by (simp add: parse_cron_def celery_crontab_def crontab_keywords_def split: list.splits)

lemma schedule_cron_is_hourly:
  "schedule_cron s u jid sched use_selenium = schedule_hourly s u jid use_selenium"
  using parse_cron_raises[of sched] by (auto simp: schedule_cron_def)




section \<open>The batch task\<close>







text \<open>
  C4, at the input of the specification's example: the batch over the targets a and b,
  where the fetch of a succeeds and the fetch of b fails. The task raises on entering
  its \<open>with\<close> statement, the outer handler returns the failure dictionary, and no row is
  stored: the loop that \<open>batch_body_counts\<close> describes is never reached.
\<close>

theorem batch_task_never_reaches_its_loop:
  "scrape_multiple_urls_task a_up_b_down [''a'', ''b''] False init_database 1000 =
     (BatchFail ''__enter__'', init_database)"
  by (simp add: scrape_multiple_urls_task_def with_scraping_manager_raises a_up_b_down_def)


section \<open>Unscheduling\<close>

lemma update_row_idem:
  "update_row jid st None (update_row jid st None j) = update_row jid st None j"
  by (simp add: update_row_def)

lemma del_keys_eq: "del_keys ks m = (\<lambda>k. if k \<in> set ks then None else m k)"
  by (induction ks arbitrary: m) (auto simp: fun_eq_iff)

lemma del_keys_idem: "del_keys ks (del_keys ks m) = del_keys ks m"
  by (simp add: del_keys_eq fun_eq_iff)

lemma remove_one_job: "remove_scheduled_job one_job 1 = Inr one_job_removed"
  by (simp add: remove_scheduled_job_def one_job_def one_job_removed_def update_job_status_def
      update_row_def schedule_keys_def str_int_def digit_char_def Let_def)

text \<open>
  C5. For every job id and every state, unscheduling returns without an error, and
  unscheduling again from the state it left returns without an error and leaves that
  state (the job table and the beat schedule) as it was.
\<close>

theorem unschedule_twice_is_idempotent:
  "\<exists>s1. remove_scheduled_job s jid = Inr s1 \<and> remove_scheduled_job s1 jid = Inr s1"
  by (simp add: remove_scheduled_job_def update_job_status_def del_keys_idem update_row_idem
      Let_def comp_def)

theorem unschedule_twice_is_idempotent_witness:
  "remove_scheduled_job one_job 1 = Inr one_job_removed \<and>
   remove_scheduled_job one_job_removed 1 = Inr one_job_removed"
proof -
  obtain s1 where a: "remove_scheduled_job one_job 1 = Inr s1"
    and b: "remove_scheduled_job s1 1 = Inr s1"
    using unschedule_twice_is_idempotent[of one_job 1] by blast
  have "s1 = one_job_removed"
    using a remove_one_job by simp
  then show ?thesis
    using a b by simp
qed

lemma same_job_refl: "same_job j j"
  by (simp add: same_job_def)

lemma same_job_trans: "same_job a b \<Longrightarrow> same_job b c \<Longrightarrow> same_job a c"
  by (simp add: same_job_def)

lemma same_job_update_row: "same_job j (update_row jid st lr j)"
  by (simp add: same_job_def update_row_def split: option.splits)

lemma rows_kept_refl: "rows_kept js js"
  by (simp add: rows_kept_def list_all2_refl same_job_refl)

lemma rows_kept_append: "rows_kept js (js @ extra)"
  by (simp add: rows_kept_def list_all2_refl same_job_refl)

lemma rows_kept_map: "rows_kept js (map (update_row jid st lr) js)"
  by (simp add: rows_kept_def list_all2_conv_all_nth same_job_update_row)

lemma rows_kept_trans:
  assumes "rows_kept a b" and "rows_kept b c"
  shows "rows_kept a c"
proof -
  have len: "length a \<le> length b" "length b \<le> length c"
    using assms by (simp_all add: rows_kept_def)
  have ab: "\<And>i. i < length a \<Longrightarrow> same_job (a ! i) (b ! i)"
    using assms(1) by (simp add: rows_kept_def list_all2_conv_all_nth)
  have bc: "\<And>i. i < length b \<Longrightarrow> same_job (b ! i) (c ! i)"
    using assms(2) by (simp add: rows_kept_def list_all2_conv_all_nth)
  have "\<And>i. i < length a \<Longrightarrow> same_job (a ! i) (c ! i)"
    using ab bc len by (meson less_le_trans same_job_trans)
  then show ?thesis
    using len by (simp add: rows_kept_def list_all2_conv_all_nth)
qed

lemma schedule_url_jobs:
  "schedule_url s u sched use_selenium now = Inr (jid, s') \<Longrightarrow>
   \<exists>j. scraping_jobs (db s') = scraping_jobs (db s) @ [j]"
  by (auto simp: schedule_url_def add_scraping_job_def Let_def schedule_hourly_def
      schedule_daily_def schedule_weekly_def schedule_cron_def split: if_splits sum.splits)

lemma remove_scheduled_job_jobs:
  "remove_scheduled_job s jid = Inr s' \<Longrightarrow>
   scraping_jobs (db s') = map (update_row jid ''inactive'' None) (scraping_jobs (db s))"
  by (auto simp: remove_scheduled_job_def update_job_status_def Let_def)

lemma apply_op_rows_kept: "rows_kept (scraping_jobs (db s)) (scraping_jobs (db (apply_op op s)))"
proof (cases op)
  case (Schedule u sched use_selenium now)
  then show ?thesis
    using schedule_url_jobs[of s u sched use_selenium now]
    by (auto split: sum.splits simp: rows_kept_refl rows_kept_append)
next
  case (Unschedule jid)
  then show ?thesis
    using remove_scheduled_job_jobs[of s jid]
    by (auto split: sum.splits simp: rows_kept_refl rows_kept_map)
next
  case (SetStatus jid st lr)
  then show ?thesis
    by (simp add: update_job_status_def rows_kept_map)
next
  case (StoreResult dat now)
  then show ?thesis
    by (simp add: insert_scraped_data_def Let_def rows_kept_refl)
qed

lemma fold_apply_op_rows_kept:
  "rows_kept (scraping_jobs (db s)) (scraping_jobs (db (fold apply_op ops s)))"
proof (induction ops arbitrary: s)
  case Nil
  then show ?case by (simp add: rows_kept_refl)
next
  case (Cons op ops)
  show ?case
    using rows_kept_trans[OF apply_op_rows_kept[of s op] Cons.IH[of "apply_op op s"]]
    by simp
qed

text \<open>
  C9. No sequence of operations deletes a job row: after any of them every row of the
  table is still there, at its place, with its id, url, recurrence spec, created_at and
  next_run. Unscheduling in particular returns without an error and changes nothing but
  the status of the rows with the given id, which becomes inactive: id, url, recurrence
  spec, created_at, last_run and next_run of every row stay as they were.
\<close>

theorem jobs_are_only_soft_disabled:
  "rows_kept (scraping_jobs (db s)) (scraping_jobs (db (fold apply_op ops s))) \<and>
   (\<exists>s'. remove_scheduled_job s jid = Inr s' \<and>
      scraping_jobs (db s') =
        map (\<lambda>j. if job_id j = jid then j\<lparr>job_status := ''inactive''\<rparr> else j) (scraping_jobs (db s)))"
  by (simp add: fold_apply_op_rows_kept remove_scheduled_job_def update_job_status_def Let_def
      update_row_def fun_eq_iff)

theorem jobs_are_only_soft_disabled_witness:
  "rows_kept (scraping_jobs (db one_job))
     (scraping_jobs (db (fold apply_op
        [Unschedule 1, Schedule ''https://example.test/other'' ''daily'' False 2000,
         SetStatus 1 ''active'' (Some 3000)] one_job))) \<and>
   (\<exists>s'. remove_scheduled_job one_job 1 = Inr s' \<and>
      scraping_jobs (db s') =
        [\<lparr>job_id = 1, job_url = ''https://example.test/page'', job_schedule = ''hourly'',
          last_run = None, next_run = None, job_status = ''inactive'', created_at = 1000\<rparr>])"
  using jobs_are_only_soft_disabled
    [of one_job "[Unschedule 1, Schedule ''https://example.test/other'' ''daily'' False 2000,
         SetStatus 1 ''active'' (Some 3000)]" 1]
  by (simp add: one_job_def)

section \<open>The task-status query\<close>

text \<open>
  C6. When the lookup in the result backend does not raise, the query returns the four
  fields task_id, status, result and ready, where status is the name of the backend's
  state for the task, ready is true exactly in the states SUCCESS, FAILURE and REVOKED,
  and result is None whenever ready is false (so a pending or running task is reported
  with ready false and its own state as status).
\<close>

theorem task_status_reports_backend_state:
  assumes "backend task_id = Inr (st, res)"
  shows "map fst (get_task_status backend task_id) = [''task_id'', ''status'', ''result'', ''ready''] \<and>
      map_of (get_task_status backend task_id) ''status'' = Some (SStr (state_name st)) \<and>
      map_of (get_task_status backend task_id) ''ready'' =
        Some (SBool (st = SUCCESS \<or> st = FAILURE \<or> st = REVOKED)) \<and>
      map_of (get_task_status backend task_id) ''result'' =
        Some (if st = SUCCESS \<or> st = FAILURE \<or> st = REVOKED
              then (case res of Some r \<Rightarrow> SResult r | None \<Rightarrow> SNone) else SNone)"
  using assms by (cases st) (simp_all add: get_task_status_def)

theorem task_status_reports_backend_state_witness:
  "pending_backend ''t1'' = Inr (PENDING, None) \<and>
   map fst (get_task_status pending_backend ''t1'') = [''task_id'', ''status'', ''result'', ''ready''] \<and>
   map_of (get_task_status pending_backend ''t1'') ''status'' = Some (SStr ''PENDING'') \<and>
   map_of (get_task_status pending_backend ''t1'') ''ready'' = Some (SBool False) \<and>
   map_of (get_task_status pending_backend ''t1'') ''result'' = Some SNone"
proof -
  have h: "pending_backend ''t1'' = Inr (PENDING, None)"
    by (simp add: pending_backend_def)
  show ?thesis
    using h task_status_reports_backend_state[of pending_backend "''t1''" PENDING None]
    by simp
qed

text \<open>
  C6 as the specification words it fails twice. A pending task is reported with
  the status PENDING, which is neither a success status nor one beginning with
  \<open>error:\<close>; and when the backend cannot be reached the record has the status \<open>error\<close>
  (no colon) and holds neither the ready nor the result field.
\<close>

theorem task_status_counterexample:
  "map_of (get_task_status pending_backend ''t1'') ''status'' = Some (SStr ''PENDING'') \<and>
   \<not> resolved_status ''PENDING'' \<and>
   map_of (get_task_status unreachable_backend ''t1'') ''status'' = Some (SStr ''error'') \<and>
   \<not> resolved_status ''error'' \<and>
   map_of (get_task_status unreachable_backend ''t1'') ''ready'' = None \<and>
   map_of (get_task_status unreachable_backend ''t1'') ''result'' = None"
  by (simp add: get_task_status_def pending_backend_def unreachable_backend_def
      resolved_status_def startswith_def)

section \<open>The extractor\<close>

lemma source_scrape_with_requests: "source (scrape_with_requests e u) = ''requests''"
  by (simp add: scrape_with_requests_def error_result_def Let_def
      split: sum.splits prod.splits)

text \<open>
  C7. When the browser cannot be set up for an extractor instance created with the
  scripted strategy (the start of Chrome raises, or the setting of its page-load timeout
  does), every later fetch through that instance, in whatever environment it runs,
  is the static fetch: its result is the one \<open>scrape_with_requests\<close> gives, with source
  \<open>requests\<close>, and it is equal, metadata included, to the result of an instance created
  with the static strategy. Nothing in the result records the substitution.
\<close>

theorem failed_browser_start_degrades_to_static:
  assumes "chrome_start e = Inl exc \<or> set_page_load_timeout e = Inl exc"
  shows "scrape e' (web_scraper_init e True) u = scrape_with_requests e' u \<and>
         scrape e' (web_scraper_init e True) u = scrape e' (web_scraper_init e False) u \<and>
         source (scrape e' (web_scraper_init e True) u) = ''requests''"
proof -
  have "\<not> ws_use_selenium (web_scraper_init e True)"
    using assms by (auto simp: web_scraper_init_def setup_selenium_def Let_def split: sum.splits)
  moreover have "\<not> ws_use_selenium (web_scraper_init e False)"
    by (simp add: web_scraper_init_def)
  ultimately show ?thesis
    by (simp add: scrape_def source_scrape_with_requests)
qed

theorem failed_browser_start_degrades_to_static_witness:
  "(chrome_start no_chrome = Inl (PyExc ''WebDriverException'' ''chrome not reachable'') \<or>
    set_page_load_timeout no_chrome = Inl (PyExc ''WebDriverException'' ''chrome not reachable'')) \<and>
   scrape no_chrome (web_scraper_init no_chrome True) ''https://example.test/page'' =
     scrape_with_requests no_chrome ''https://example.test/page'' \<and>
   scrape no_chrome (web_scraper_init no_chrome True) ''https://example.test/page'' =
     scrape no_chrome (web_scraper_init no_chrome False) ''https://example.test/page'' \<and>
   source (scrape no_chrome (web_scraper_init no_chrome True) ''https://example.test/page'') =
     ''requests''"
proof -
  have h: "chrome_start no_chrome = Inl (PyExc ''WebDriverException'' ''chrome not reachable'') \<or>
    set_page_load_timeout no_chrome = Inl (PyExc ''WebDriverException'' ''chrome not reachable'')"
    by (simp add: no_chrome_def)
  show ?thesis
    using h failed_browser_start_degrades_to_static[OF h, of no_chrome "''https://example.test/page''"]
    by blast
qed

lemma example_scrape:
  "scrape_with_requests no_chrome ''https://example.test/page'' =
     \<lparr>url = ''https://example.test/page'', title = ''News'', content = ''the story'',
      meta = [(''description'', MStr ''daily news''), (''links'', MList [''/next'']),
              (''images'', MList []), (''status_code'', MInt 200),
              (''content_type'', MStr ''text/html'')],
      source = ''requests'', status = ''success''\<rparr>"
  by (simp add: scrape_with_requests_def no_chrome_def raise_for_status_def extract_content_def
      soup_decompose_def example_page_def content_selectors_def select_one_def
      soup_descendants_def element_text_def get_text_strip_def get_text_def py_strip_def is_space_def
      string_container_def extract_metadata_def with_attr_def py_or_def Let_def)

text \<open>
  The part of C7 on the metadata fails: with Chrome unavailable, the fetch of the
  example page through an instance created with the scripted strategy has as metadata
  the page's own annotations, links and images and the response's status and content
  type, the same as through an instance created with the static strategy; no entry
  records the substitution.
\<close>

theorem substitution_not_in_metadata_counterexample:
  "chrome_start no_chrome = Inl (PyExc ''WebDriverException'' ''chrome not reachable'') \<and>
   meta (scrape no_chrome (web_scraper_init no_chrome True) ''https://example.test/page'') =
     [(''description'', MStr ''daily news''), (''links'', MList [''/next'']),
      (''images'', MList []), (''status_code'', MInt 200),
      (''content_type'', MStr ''text/html'')] \<and>
   meta (scrape no_chrome (web_scraper_init no_chrome True) ''https://example.test/page'') =
     meta (scrape no_chrome (web_scraper_init no_chrome False) ''https://example.test/page'')"
  by (simp add: scrape_def web_scraper_init_def setup_selenium_def example_scrape)
    (simp add: no_chrome_def)

lemma try_selectors_first:
  "k < length sels \<Longrightarrow>
   list_all (\<lambda>sel. select_one d sel = None) (take k sels) \<Longrightarrow>
   select_one d (sels ! k) = Some el \<Longrightarrow>
   try_selectors d sels = Some (element_text el)"
proof (induction sels arbitrary: k)
  case Nil
  then show ?case by simp
next
  case (Cons sel sels)
  show ?case
  proof (cases k)
    case 0
    then show ?thesis using Cons.prems by simp
  next
    case (Suc j)
    then have "select_one d sel = None" and "j < length sels"
      and "list_all (\<lambda>sel. select_one d sel = None) (take j sels)"
      and "select_one d (sels ! j) = Some el"
      using Cons.prems by simp_all
    then show ?thesis
      using Cons.IH[of j] by simp
  qed
qed

lemma try_selectors_none:
  "list_all (\<lambda>sel. select_one d sel = None) sels \<Longrightarrow> try_selectors d sels = None"
  by (induction sels) auto

lemma content_scrape_with_requests:
  "http_get e u = Inr r \<Longrightarrow> raise_for_status r u = Inr () \<Longrightarrow>
   content (scrape_with_requests e u) = fst (extract_content (parsed r))"
  by (simp add: scrape_with_requests_def Let_def split: prod.splits)

text \<open>
  C8. For a response that was fetched and parsed, the body of the static strategy's
  result is the content \<open>_extract_content\<close> chooses. With the script and style tags
  taken out of the document, that content is the text of the region found by the
  selector at position k of the fixed list, whenever no selector before position k
  finds a region; and it is the text of the whole document when no selector of the
  list finds one.
\<close>

theorem content_is_first_matching_region:
  "(http_get e u = Inr r \<and> raise_for_status r u = Inr ()
    \<longrightarrow> content (scrape_with_requests e u) = fst (extract_content (parsed r))) \<and>
   (k < length content_selectors \<and>
    list_all (\<lambda>sel. select_one (soup_decompose [''script'', ''style''] d0) sel = None)
      (take k content_selectors) \<and>
    select_one (soup_decompose [''script'', ''style''] d0) (content_selectors ! k) = Some el
    \<longrightarrow> fst (extract_content d0) = element_text el) \<and>
   (list_all (\<lambda>sel. select_one (soup_decompose [''script'', ''style''] d0) sel = None)
      content_selectors
    \<longrightarrow> fst (extract_content d0) = soup_text (soup_decompose [''script'', ''style''] d0))"
  by (auto simp: extract_content_def Let_def try_selectors_first try_selectors_none
      content_scrape_with_requests)

lemma example_decomposed:
  "soup_decompose [''script'', ''style''] example_page =
     [Elem ''html'' []
        [Elem ''head'' []
           [Elem ''title'' [] [Text '' News ''],
            Elem ''meta'' [(''name'', ''description''), (''content'', ''daily news'')] []],
         Elem ''body'' []
           [Elem ''div'' [(''class'', ''wide content'')] [Text '' side ''],
            Elem ''article'' [] [Text ''the '', Elem ''b'' [] [Text ''story'']],
            Elem ''a'' [(''href'', ''/next'')] [Text ''more'']]]]"
  by (simp add: soup_decompose_def example_page_def)

lemma plain_decomposed:
  "soup_decompose [''script'', ''style''] plain_page =
     [Elem ''html'' [] [Elem ''body'' [] [Elem ''p'' [] [Text '' one ''], Elem ''p'' [] [Text ''two'']]]]"
  by (simp add: soup_decompose_def plain_page_def)

theorem content_is_first_matching_region_witness:
  "(http_get no_chrome ''https://example.test/page'' =
      Inr \<lparr>status_code = 200, reason = ''OK'', content_type = Some ''text/html'',
           parsed = example_page\<rparr> \<and>
    raise_for_status \<lparr>status_code = 200, reason = ''OK'', content_type = Some ''text/html'',
           parsed = example_page\<rparr> ''https://example.test/page'' = Inr () \<and>
    content (scrape_with_requests no_chrome ''https://example.test/page'') = ''the story'') \<and>
   (1 < length content_selectors \<and>
    list_all (\<lambda>sel. select_one (soup_decompose [''script'', ''style''] example_page) sel = None)
      (take 1 content_selectors) \<and>
    select_one (soup_decompose [''script'', ''style''] example_page) (content_selectors ! 1) =
      Some (Elem ''article'' [] [Text ''the '', Elem ''b'' [] [Text ''story'']]) \<and>
    fst (extract_content example_page) = ''the story'') \<and>
   (list_all (\<lambda>sel. select_one (soup_decompose [''script'', ''style''] plain_page) sel = None)
      content_selectors \<and>
    fst (extract_content plain_page) = ''one two'')"
proof -
  let ?r = "\<lparr>status_code = 200, reason = ''OK'', content_type = Some ''text/html'',
           parsed = example_page\<rparr>"
  let ?article = "Elem ''article'' [] [Text ''the '', Elem ''b'' [] [Text ''story'']]"
  have g: "http_get no_chrome ''https://example.test/page'' = Inr ?r"
    by (simp add: no_chrome_def)
  have s: "raise_for_status ?r ''https://example.test/page'' = Inr ()"
    by (simp add: raise_for_status_def)
  have a: "1 < length content_selectors \<and>
    list_all (\<lambda>sel. select_one (soup_decompose [''script'', ''style''] example_page) sel = None)
      (take 1 content_selectors) \<and>
    select_one (soup_decompose [''script'', ''style''] example_page) (content_selectors ! 1) =
      Some ?article"
    by (simp add: example_decomposed content_selectors_def select_one_def soup_descendants_def)
  have b: "list_all (\<lambda>sel. select_one (soup_decompose [''script'', ''style''] plain_page) sel = None)
      content_selectors"
    by (simp add: plain_decomposed content_selectors_def select_one_def soup_descendants_def)
  have ta: "element_text ?article = ''the story''"
    by (simp add: element_text_def get_text_strip_def py_strip_def is_space_def
        string_container_def)
  have tb: "soup_text (soup_decompose [''script'', ''style''] plain_page) = ''one two''"
    by (simp add: plain_decomposed soup_text_def soup_descendants_def get_text_strip_def
        py_strip_def is_space_def)
  have first: "fst (extract_content example_page) = ''the story''"
    using a ta
      content_is_first_matching_region[where k = 1 and ?d0.0 = example_page and el = ?article]
    by simp
  have none: "fst (extract_content plain_page) = ''one two''"
    using b tb content_is_first_matching_region[where k = 0 and ?d0.0 = plain_page]
    by simp
  have body: "content (scrape_with_requests no_chrome ''https://example.test/page'') = ''the story''"
    using g s first
      content_is_first_matching_region[where e = no_chrome and u = "''https://example.test/page''"
        and r = ?r]
    by simp
  show ?thesis
    using g s a b first none body by simp
qed

end
